theory Spec2Isabelle
  imports Complex_Main
begin

section \<open>Calls that may throw, and notifications\<close>

text \<open>
  A JavaScript call either returns a value or throws. \<open>Throw msg\<close> stands for
  \<^verbatim>\<open>throw new Error(msg)\<close>; a method declared without a return value returns
  \<open>Return ()\<close>. Every method that mutates its object is modelled by a function that takes
  the object and gives back the completion together with the object after the call.
\<close>

datatype 'a completion = Return 'a | Throw string

text \<open>
  Modelled from the spec: \<^verbatim>\<open>AbstractSubject.broadcastParameter\<close> and the observer list
  are not part of the sources at hand. The spec (section 6) says that the core "emits a
  single notification event carrying the new solver's stable name to zero-or-more external
  observers". A notification is recorded as the name of the broadcast Parameter together
  with the value its getter yields at the moment of the broadcast, and the subject keeps the
  sequence of notifications it has emitted.
\<close>

record 'v ParameterEvent =
  paramName :: string
  paramValue :: 'v

section \<open>DiffEqSolverSubject\<close>

text \<open>
  The four solver classes are built by \<^verbatim>\<open>new EulersMethod(sim)\<close>,
  \<^verbatim>\<open>new ModifiedEuler(sim)\<close>, \<^verbatim>\<open>new RungeKutta(sim)\<close> and
  \<^verbatim>\<open>new AdaptiveStepSolver(sim, energySystem, odeSolver)\<close>. Their methods
  \<^verbatim>\<open>getName(opt_localized)\<close> and \<^verbatim>\<open>nameEquals(name)\<close> are not part of the sources
  at hand; every operation below takes them as the parameters \<open>getName\<close> and
  \<open>nameEquals\<close>.
\<close>

datatype ('sim, 'es) DiffEqSolver =
    EulersMethod 'sim
  | ModifiedEuler 'sim
  | RungeKutta 'sim
  | AdaptiveStepSolver 'sim 'es "('sim, 'es) DiffEqSolver"

fun isAdaptiveStepSolver :: "('sim, 'es) DiffEqSolver \<Rightarrow> bool" where
  "isAdaptiveStepSolver (AdaptiveStepSolver _ _ _) = True"
| "isAdaptiveStepSolver _ = False"

text \<open>
  Modelled from the spec: \<^verbatim>\<open>ODEAdvance\<close> is not part of the sources at hand. The spec
  (section 4.4) calls it the advance-strategy collaborator that holds "the active solver";
  \<^verbatim>\<open>getDiffEqSolver()\<close> reads it and \<^verbatim>\<open>setDiffEqSolver(solver)\<close> replaces it.
\<close>

record 's ODEAdvance =
  odeSolver :: 's

definition ODEAdvance_getDiffEqSolver :: "'s ODEAdvance \<Rightarrow> 's" where
  "ODEAdvance_getDiffEqSolver adv = odeSolver adv"

definition ODEAdvance_setDiffEqSolver :: "'s \<Rightarrow> 's ODEAdvance \<Rightarrow> 's ODEAdvance" where
  "ODEAdvance_setDiffEqSolver solver adv = adv\<lparr>odeSolver := solver\<rparr>"

text \<open>
  Private fields lose their trailing underscore (\<^verbatim>\<open>solvers_\<close> is \<open>solvers\<close>), and the
  constructor's arguments are written \<open>sim0\<close>, \<open>energySystem0\<close>, \<open>advanceStrategy0\<close>.

  The ParameterString created by the constructor: its language-independent name, the
  localized choices and the language-independent values. Getter and setter are the two
  methods below.
\<close>

record ParameterString =
  psName :: string
  psChoices :: "string list"
  psValues :: "string list"

record ('sim, 'es) DiffEqSolverSubject =
  subjectName :: string
  sim :: 'sim
  energySystem :: "'es option"
  advanceStrategy :: "('sim, 'es) DiffEqSolver ODEAdvance"
  solvers :: "('sim, 'es) DiffEqSolver list"
  paramList :: "ParameterString list"
  broadcasts :: "string ParameterEvent list"

definition DIFF_EQ_SOLVER :: string where
  "DIFF_EQ_SOLVER = ''Diff Eq Solver''"

text \<open>\<^verbatim>\<open>array.push(x)\<close> appends at the end.\<close>

definition push :: "'a \<Rightarrow> 'a list \<Rightarrow> 'a list" where
  "push x xs = xs @ [x]"

text \<open>
  The constructor. \<^verbatim>\<open>opt_name || 'DIFF_EQ_SUBJECT'\<close> takes the default for a missing
  and for an empty name. The energy system is \<open>None\<close> for \<^verbatim>\<open>null\<close>.
\<close>

definition DiffEqSolverSubject_new ::
  "(('sim, 'es) DiffEqSolver \<Rightarrow> bool \<Rightarrow> string) \<Rightarrow> 'sim \<Rightarrow> 'es option \<Rightarrow>
   ('sim, 'es) DiffEqSolver ODEAdvance \<Rightarrow> string option \<Rightarrow> ('sim, 'es) DiffEqSolverSubject" where
  "DiffEqSolverSubject_new getName sim0 energySystem0 advanceStrategy0 opt_name =
    (let solvers0 = [];
         solvers1 = push (EulersMethod sim0) solvers0;
         solvers2 = push (ModifiedEuler sim0) solvers1;
         solvers3 = push (RungeKutta sim0) solvers2;
         solvers5 =
           (case energySystem0 of
              None \<Rightarrow> solvers3
            | Some es \<Rightarrow>
                (let solvers4 = push (AdaptiveStepSolver sim0 es (ModifiedEuler sim0)) solvers3
                 in push (AdaptiveStepSolver sim0 es (RungeKutta sim0)) solvers4));
         choices = map (\<lambda>s. getName s True) solvers5;
         values = map (\<lambda>s. getName s False) solvers5
     in \<lparr> subjectName =
            (case opt_name of None \<Rightarrow> ''DIFF_EQ_SUBJECT''
             | Some n \<Rightarrow> if n = [] then ''DIFF_EQ_SUBJECT'' else n),
          sim = sim0,
          energySystem = energySystem0,
          advanceStrategy = advanceStrategy0,
          solvers = solvers5,
          paramList = [\<lparr> psName = DIFF_EQ_SOLVER, psChoices = choices, psValues = values \<rparr>],
          broadcasts = [] \<rparr>)"

definition getDiffEqSolver ::
  "(('sim, 'es) DiffEqSolver \<Rightarrow> bool \<Rightarrow> string) \<Rightarrow> ('sim, 'es) DiffEqSolverSubject \<Rightarrow> string" where
  "getDiffEqSolver getName subj =
     getName (ODEAdvance_getDiffEqSolver (advanceStrategy subj)) False"

text \<open>
  Modelled from the spec: \<^verbatim>\<open>AbstractSubject.broadcastParameter\<close> is not part of the
  sources at hand. \<^verbatim>\<open>broadcastParameter(DIFF_EQ_SOLVER)\<close> emits one notification,
  carrying the value the parameter's getter \<^verbatim>\<open>getDiffEqSolver\<close> yields when the
  observers are called.
\<close>

definition broadcastParameter ::
  "(('sim, 'es) DiffEqSolver \<Rightarrow> bool \<Rightarrow> string) \<Rightarrow> string \<Rightarrow>
   ('sim, 'es) DiffEqSolverSubject \<Rightarrow> ('sim, 'es) DiffEqSolverSubject" where
  "broadcastParameter getName name subj =
     subj\<lparr>broadcasts :=
       push \<lparr> paramName = name, paramValue = getDiffEqSolver getName subj \<rparr> (broadcasts subj)\<rparr>"

text \<open>
  \<^verbatim>\<open>goog.array.find\<close> gives the first element that satisfies the predicate, or
  \<^verbatim>\<open>null\<close>; \<open>List.find\<close> gives \<open>Some\<close> of it, or \<open>None\<close>.
\<close>

definition setDiffEqSolver ::
  "(('sim, 'es) DiffEqSolver \<Rightarrow> bool \<Rightarrow> string) \<Rightarrow> (('sim, 'es) DiffEqSolver \<Rightarrow> string \<Rightarrow> bool) \<Rightarrow>
   string \<Rightarrow> ('sim, 'es) DiffEqSolverSubject \<Rightarrow>
   unit completion \<times> ('sim, 'es) DiffEqSolverSubject" where
  "setDiffEqSolver getName nameEquals value subj =
    (if \<not> nameEquals (ODEAdvance_getDiffEqSolver (advanceStrategy subj)) value then
       (case find (\<lambda>s. nameEquals s value) (solvers subj) of
          Some solver \<Rightarrow>
            (let subj1 = subj\<lparr>advanceStrategy :=
                           ODEAdvance_setDiffEqSolver solver (advanceStrategy subj)\<rparr>;
                 subj2 = broadcastParameter getName DIFF_EQ_SOLVER subj1
             in (Return (), subj2))
        | None \<Rightarrow> (Throw (''unknown solver: '' @ value), subj))
     else (Return (), subj))"

subsection \<open>A sample naming of the solvers\<close>

text \<open>
  Concrete inputs for the parameters \<open>getName\<close> and \<open>nameEquals\<close>, used where a statement
  is evaluated on an example: upper-case names with underscores, an adaptive solver named
  after the solver it wraps, and comparison of the language-independent name with the
  given string. The localized names are taken equal to the language-independent ones.
\<close>

fun sampleName :: "(unit, unit) DiffEqSolver \<Rightarrow> bool \<Rightarrow> string" where
  "sampleName (EulersMethod _) _ = ''EULERS_METHOD''"
| "sampleName (ModifiedEuler _) _ = ''MODIFIED_EULER''"
| "sampleName (RungeKutta _) _ = ''RUNGE_KUTTA''"
| "sampleName (AdaptiveStepSolver _ _ s) b = ''ADAPTIVE_STEP_'' @ sampleName s b"

definition sampleNameEquals :: "(unit, unit) DiffEqSolver \<Rightarrow> string \<Rightarrow> bool" where
  "sampleNameEquals s name = (sampleName s False = name)"

definition sampleSubject :: "(unit, unit) DiffEqSolverSubject" where
  "sampleSubject =
     DiffEqSolverSubject_new sampleName () (Some ()) \<lparr> odeSolver = RungeKutta () \<rparr> None"

section \<open>Numbers and arrays\<close>

text \<open>
  The values that flow through the simulation: numbers, and \<^verbatim>\<open>undefined\<close> (what
  reading an array beyond its end yields). A number is \<^verbatim>\<open>NaN\<close>, an infinity or a
  finite value. Finite values are real numbers here: rounding, overflow and the sign of
  zero are not modelled, and no statement below depends on them. The special values follow
  IEEE 754: a non-zero number divided by zero is an infinity, and \<^verbatim>\<open>0/0\<close>,
  \<^verbatim>\<open>0 * Infinity\<close>, \<^verbatim>\<open>Infinity - Infinity\<close>, \<^verbatim>\<open>Infinity / Infinity\<close> and
  every operation on \<^verbatim>\<open>NaN\<close> are \<^verbatim>\<open>NaN\<close>. An arithmetic operator converts
  \<^verbatim>\<open>undefined\<close> to \<^verbatim>\<open>NaN\<close> first.
\<close>

datatype jsval = Undefined | NaN | Num real | PosInfinity | NegInfinity

fun ToNumber :: "jsval \<Rightarrow> jsval" where
  "ToNumber Undefined = NaN"
| "ToNumber v = v"

fun js_neg :: "jsval \<Rightarrow> jsval" where
  "js_neg (Num a) = Num (- a)"
| "js_neg PosInfinity = NegInfinity"
| "js_neg NegInfinity = PosInfinity"
| "js_neg _ = NaN"

fun js_add :: "jsval \<Rightarrow> jsval \<Rightarrow> jsval" where
  "js_add (Num a) (Num b) = Num (a + b)"
| "js_add (Num a) PosInfinity = PosInfinity"
| "js_add (Num a) NegInfinity = NegInfinity"
| "js_add PosInfinity (Num b) = PosInfinity"
| "js_add NegInfinity (Num b) = NegInfinity"
| "js_add PosInfinity PosInfinity = PosInfinity"
| "js_add NegInfinity NegInfinity = NegInfinity"
| "js_add _ _ = NaN"

fun js_mul :: "jsval \<Rightarrow> jsval \<Rightarrow> jsval" where
  "js_mul (Num a) (Num b) = Num (a * b)"
| "js_mul (Num a) PosInfinity = (if a = 0 then NaN else if 0 < a then PosInfinity else NegInfinity)"
| "js_mul (Num a) NegInfinity = (if a = 0 then NaN else if 0 < a then NegInfinity else PosInfinity)"
| "js_mul PosInfinity (Num b) = (if b = 0 then NaN else if 0 < b then PosInfinity else NegInfinity)"
| "js_mul NegInfinity (Num b) = (if b = 0 then NaN else if 0 < b then NegInfinity else PosInfinity)"
| "js_mul PosInfinity PosInfinity = PosInfinity"
| "js_mul PosInfinity NegInfinity = NegInfinity"
| "js_mul NegInfinity PosInfinity = NegInfinity"
| "js_mul NegInfinity NegInfinity = PosInfinity"
| "js_mul _ _ = NaN"

fun js_div :: "jsval \<Rightarrow> jsval \<Rightarrow> jsval" where
  "js_div (Num a) (Num b) =
     (if b \<noteq> 0 then Num (a / b)
      else if a = 0 then NaN else if 0 < a then PosInfinity else NegInfinity)"
| "js_div (Num a) PosInfinity = Num 0"
| "js_div (Num a) NegInfinity = Num 0"
| "js_div PosInfinity (Num b) = (if 0 \<le> b then PosInfinity else NegInfinity)"
| "js_div NegInfinity (Num b) = (if 0 \<le> b then NegInfinity else PosInfinity)"
| "js_div _ _ = NaN"

instantiation jsval :: "{zero, one, plus, minus, uminus, times, inverse}"
begin

definition zero_jsval :: jsval where
  "zero_jsval = Num 0"

definition one_jsval :: jsval where
  "one_jsval = Num 1"

definition plus_jsval :: "jsval \<Rightarrow> jsval \<Rightarrow> jsval" where
  "plus_jsval a b = js_add (ToNumber a) (ToNumber b)"

definition uminus_jsval :: "jsval \<Rightarrow> jsval" where
  "uminus_jsval a = js_neg (ToNumber a)"

definition minus_jsval :: "jsval \<Rightarrow> jsval \<Rightarrow> jsval" where
  "minus_jsval a b = js_add (ToNumber a) (js_neg (ToNumber b))"

definition times_jsval :: "jsval \<Rightarrow> jsval \<Rightarrow> jsval" where
  "times_jsval a b = js_mul (ToNumber a) (ToNumber b)"

definition divide_jsval :: "jsval \<Rightarrow> jsval \<Rightarrow> jsval" where
  "divide_jsval a b = js_div (ToNumber a) (ToNumber b)"

definition inverse_jsval :: "jsval \<Rightarrow> jsval" where
  "inverse_jsval a = js_div (Num 1) (ToNumber a)"

instance ..

end

text \<open>
  Arrays are lists. Reading \<^verbatim>\<open>arr[i]\<close> beyond the end yields \<^verbatim>\<open>undefined\<close>;
  the assignment \<^verbatim>\<open>arr[i] = v\<close> beyond the end extends the array, the elements in
  between reading as \<^verbatim>\<open>undefined\<close>. \<^verbatim>\<open>new Array(n)\<close> has length \<open>n\<close> and reads
  as \<^verbatim>\<open>undefined\<close> everywhere.
\<close>

definition elem :: "jsval list \<Rightarrow> nat \<Rightarrow> jsval" where
  "elem arr i = (if i < length arr then arr ! i else Undefined)"

definition assign :: "jsval list \<Rightarrow> nat \<Rightarrow> jsval \<Rightarrow> jsval list" where
  "assign arr i v =
     (if i < length arr then arr[i := v]
      else arr @ replicate (i - length arr) Undefined @ [v])"

definition newArray :: "nat \<Rightarrow> jsval list" where
  "newArray n = replicate n Undefined"

text \<open>
  Modelled from the spec: \<^verbatim>\<open>Util.zeroArray\<close> is not part of the sources at hand. By
  its name, and by the spec's "their derivative is always zero" for the slots that
  \<^verbatim>\<open>evaluate\<close> does not write, it sets every element of the array to 0 and keeps the
  length.
\<close>

definition zeroArray :: "jsval list \<Rightarrow> jsval list" where
  "zeroArray arr = map (\<lambda>_. 0) arr"

section \<open>The collaborators of MagnetWheelSim\<close>

text \<open>
  The class \<^verbatim>\<open>Vector\<close> is not part of the sources at hand, and the spec does not
  describe it. \<^verbatim>\<open>evaluate\<close> builds a vector from two numbers
  (\<^verbatim>\<open>new Vector(xf - x, yf - y)\<close>) and reads one with \<^verbatim>\<open>getX()\<close> and
  \<^verbatim>\<open>getY()\<close>: a vector is the pair of its two coordinates. Its methods
  \<^verbatim>\<open>multiply\<close> and \<^verbatim>\<open>lengthSquared\<close> are taken as the parameters \<open>multiply\<close> and
  \<open>lengthSquared\<close> of the operations that call them. What the class does with a
  coordinate that is not a finite number is not visible; no statement below is about a
  state in which such a vector decides the outcome.
\<close>

record Vector =
  getX :: jsval
  getY :: jsval

text \<open>
  Modelled from the spec: the class \<^verbatim>\<open>MagnetWheel\<close> is not part of the sources at hand.
  The wheel is the data its getters and setters name: mass, radius, the magnets (positions
  in body coordinates), angle and angular velocity; each setter replaces one field. Its
  methods \<^verbatim>\<open>bodyToWorld\<close> and \<^verbatim>\<open>getKineticEnergy\<close> are taken as the parameters
  \<open>bodyToWorld\<close> and \<open>getKineticEnergy\<close> of the operations that call them.
\<close>

record MagnetWheel =
  getMass :: jsval
  getRadius :: jsval
  getMagnets :: "Vector list"
  getAngle :: jsval
  getAngularVelocity :: jsval

definition MagnetWheel_setMass :: "jsval \<Rightarrow> MagnetWheel \<Rightarrow> MagnetWheel" where
  "MagnetWheel_setMass value w = w\<lparr>getMass := value\<rparr>"

definition setAngle :: "jsval \<Rightarrow> MagnetWheel \<Rightarrow> MagnetWheel" where
  "setAngle value w = w\<lparr>getAngle := value\<rparr>"

definition setAngularVelocity :: "jsval \<Rightarrow> MagnetWheel \<Rightarrow> MagnetWheel" where
  "setAngularVelocity value w = w\<lparr>getAngularVelocity := value\<rparr>"

text \<open>
  Modelled from the spec: the class \<^verbatim>\<open>EnergyInfo\<close> is not part of the sources at hand.
  It keeps the five arguments of its constructor. \<^verbatim>\<open>getEnergyInfo_\<close> (written
  \<open>getEnergyInfo_priv\<close> below) passes \<open>pe\<close> first and \<open>ke\<close> second, and \<^verbatim>\<open>modifyObjects\<close> stores \<^verbatim>\<open>getTranslational()\<close> in
  the slot \<open>ke\<close> and \<^verbatim>\<open>getPotential()\<close> in the slot \<open>pe\<close>: these two getters read the
  second and the first argument. \<^verbatim>\<open>getTotalEnergy\<close> is taken as the parameter
  \<open>getTotalEnergy\<close> of the operations that call it.
\<close>

record EnergyInfo =
  getPotential :: jsval
  getTranslational :: jsval
  getRotational :: jsval
  getWorkDone :: jsval
  getInitialEnergy :: jsval

text \<open>
  Modelled from the spec: the class \<^verbatim>\<open>VarsList\<close> is not part of the sources at hand. The
  spec (sections 3 and 4.1): "an ordered sequence of named scalar slots"; "a subset of slots
  may be marked computed"; "each slot carries a change-sequence counter"; \<open>read\<close> gives a
  snapshot of the values; \<open>write(values, continuous)\<close> "replaces all slot values; if
  continuous is false, increments the change-sequence counter for every slot whose value
  differs from the prior value"; "writing a sequence of the wrong length fails with a
  ShapeMismatch error". \<^verbatim>\<open>incrSequence\<close> increments the counter and
  \<^verbatim>\<open>setComputed\<close> sets the mark of each listed slot; \<^verbatim>\<open>setValue(i, v)\<close> is the
  discontinuous write of one slot. The spec names no failure for these three; here an index
  beyond the last slot changes nothing, and the statements below are about a VarsList that
  has the slots they index. A new slot holds 0, with counter 0, not computed. The flag
  \<^verbatim>\<open>continuous\<close> is written \<open>smooth\<close>.
\<close>

record Variable =
  varName :: string
  varValue :: jsval
  varSequence :: nat
  varComputed :: bool

type_synonym VarsList = "Variable list"

datatype error = ShapeMismatch

definition VarsList_new :: "string list \<Rightarrow> VarsList" where
  "VarsList_new var_names =
     map (\<lambda>n. \<lparr> varName = n, varValue = 0, varSequence = 0, varComputed = False \<rparr>) var_names"

definition getValues :: "VarsList \<Rightarrow> jsval list" where
  "getValues va = map varValue va"

definition setComputed :: "nat list \<Rightarrow> VarsList \<Rightarrow> VarsList" where
  "setComputed indexes va =
     fold (\<lambda>i l. if i < length l then l[i := (l ! i)\<lparr>varComputed := True\<rparr>] else l) indexes va"

definition incrSequence :: "nat list \<Rightarrow> VarsList \<Rightarrow> VarsList" where
  "incrSequence indexes va =
     fold (\<lambda>i l. if i < length l then l[i := (l ! i)\<lparr>varSequence := varSequence (l ! i) + 1\<rparr>] else l)
       indexes va"

definition writeSlot :: "bool \<Rightarrow> jsval \<Rightarrow> Variable \<Rightarrow> Variable" where
  "writeSlot smooth v slot =
     slot\<lparr> varValue := v,
           varSequence := (if \<not> smooth \<and> varValue slot \<noteq> v
                           then varSequence slot + 1 else varSequence slot) \<rparr>"

definition setValue :: "nat \<Rightarrow> jsval \<Rightarrow> VarsList \<Rightarrow> VarsList" where
  "setValue i v va = (if i < length va then va[i := writeSlot False v (va ! i)] else va)"

definition setValues :: "jsval list \<Rightarrow> bool \<Rightarrow> VarsList \<Rightarrow> error + VarsList" where
  "setValues vars smooth va =
     (if length vars \<noteq> length va then Inl ShapeMismatch
      else Inr (map2 (writeSlot smooth) vars va))"

section \<open>MagnetWheelSim\<close>

text \<open>
  The fields the constructor sets, the VarsList the simulation owns, and the notifications
  it has emitted. The slots of the VarsList are, in this order,
  \<^verbatim>\<open>0: a, 1: w, 2: time, 3: ke, 4: pe, 5: te\<close>.
\<close>

record MagnetWheelSim =
  varsList :: VarsList
  wheel :: MagnetWheel
  magnetStrength :: jsval
  damping :: jsval
  initialEnergy :: jsval
  potentialOffset :: jsval
  isDragging :: bool
  keyLeft :: bool
  keyRight :: bool
  keyForce :: jsval
  simBroadcasts :: "jsval ParameterEvent list"

definition DAMPING :: string where
  "DAMPING = ''damping''"

definition MASS :: string where
  "MASS = ''mass''"

definition ANGLE :: string where
  "ANGLE = ''angle''"

definition ANGULAR_VELOCITY :: string where
  "ANGULAR_VELOCITY = ''angular velocity''"

text \<open>
  Modelled from the spec: the string tables \<^verbatim>\<open>VarsList.en\<close> and
  \<^verbatim>\<open>EnergySystem.en\<close> are not part of the sources at hand. The spec (section 3) names
  the slots "elapsed time" and "kinetic/potential/total energy"; the comment in the
  constructor abbreviates them \<^verbatim>\<open>time, ke, pe, te\<close>.
\<close>

definition TIME :: string where
  "TIME = ''time''"

definition KINETIC_ENERGY :: string where
  "KINETIC_ENERGY = ''kinetic energy''"

definition POTENTIAL_ENERGY :: string where
  "POTENTIAL_ENERGY = ''potential energy''"

definition TOTAL_ENERGY :: string where
  "TOTAL_ENERGY = ''total energy''"

text \<open>
  The constructor. \<open>madeWheel\<close> is the wheel that \<^verbatim>\<open>MagnetWheel.make(1, 'wheel')\<close>
  returns. The calls into the superclasses (\<^verbatim>\<open>saveInitialState\<close>,
  \<^verbatim>\<open>getSimList().add\<close>, \<^verbatim>\<open>addParameter\<close>) touch none of the fields above; the two
  parameters they register, \<open>DAMPING\<close> and \<open>MASS\<close> with their getters, are what
  \<open>MagnetWheelSim_broadcastParameter\<close> looks up.
\<close>

definition MagnetWheelSim_new :: "MagnetWheel \<Rightarrow> MagnetWheelSim" where
  "MagnetWheelSim_new madeWheel =
    (let var_names = [ANGLE, ANGULAR_VELOCITY, TIME, KINETIC_ENERGY, POTENTIAL_ENERGY, TOTAL_ENERGY];
         va0 = VarsList_new var_names;
         va1 = setComputed [3, 4, 5] va0;
         va2 = setValue 1 (Num 3) va1
     in \<lparr> varsList = va2,
          wheel = MagnetWheel_setMass (Num 1) madeWheel,
          magnetStrength = Num 1,
          damping = Num 0.7,
          initialEnergy = Num 0,
          potentialOffset = Num 0,
          isDragging = False,
          keyLeft = False,
          keyRight = False,
          keyForce = Num 5,
          simBroadcasts = [] \<rparr>)"

definition moveObjects :: "jsval list \<Rightarrow> MagnetWheelSim \<Rightarrow> MagnetWheelSim" where
  "moveObjects vars sim0 =
    (let w1 = setAngle (elem vars 0) (wheel sim0);
         w2 = setAngularVelocity (elem vars 1) w1
     in sim0\<lparr>wheel := w2\<rparr>)"

definition getEnergyInfo_priv ::
  "(MagnetWheel \<Rightarrow> jsval) \<Rightarrow> jsval list \<Rightarrow> MagnetWheelSim \<Rightarrow> EnergyInfo" where
  "getEnergyInfo_priv getKineticEnergy vars sim0 =
    (let ke = getKineticEnergy (wheel sim0);
         pe = 0
     in \<lparr> getPotential = pe, getTranslational = ke, getRotational = NaN, getWorkDone = NaN,
          getInitialEnergy = initialEnergy sim0 \<rparr>)"

definition getEnergyInfo ::
  "(MagnetWheel \<Rightarrow> jsval) \<Rightarrow> MagnetWheelSim \<Rightarrow> EnergyInfo \<times> MagnetWheelSim" where
  "getEnergyInfo getKineticEnergy sim0 =
    (let vars = getValues (varsList sim0);
         sim1 = moveObjects vars sim0
     in (getEnergyInfo_priv getKineticEnergy vars sim1, sim1))"

definition setPotentialEnergy ::
  "(MagnetWheel \<Rightarrow> jsval) \<Rightarrow> jsval \<Rightarrow> MagnetWheelSim \<Rightarrow> MagnetWheelSim" where
  "setPotentialEnergy getKineticEnergy value sim0 =
    (let sim1 = sim0\<lparr>potentialOffset := 0\<rparr>;
         (ei, sim2) = getEnergyInfo getKineticEnergy sim1
     in sim2\<lparr>potentialOffset := value - getPotential ei\<rparr>)"

text \<open>
  The loop of \<^verbatim>\<open>evaluate\<close> over the magnets, one magnet per step; \<open>m\<close>, \<open>xf\<close> and
  \<open>yf\<close> are the local variables of \<^verbatim>\<open>evaluate\<close>.
\<close>

fun magnetLoop ::
  "(MagnetWheel \<Rightarrow> Vector \<Rightarrow> Vector) \<Rightarrow> (Vector \<Rightarrow> jsval \<Rightarrow> Vector) \<Rightarrow> (Vector \<Rightarrow> jsval) \<Rightarrow>
   MagnetWheelSim \<Rightarrow> jsval \<Rightarrow> jsval \<Rightarrow> jsval \<Rightarrow>
   Vector list \<Rightarrow> jsval list \<Rightarrow> jsval list" where
  "magnetLoop bodyToWorld multiply lengthSquared sim0 m xf yf [] change = change"
| "magnetLoop bodyToWorld multiply lengthSquared sim0 m xf yf (magnet # magnets) change =
    (let c = bodyToWorld (wheel sim0) magnet;
         x = getX c;
         y = getY c;
         f = \<lparr> getX = xf - x, getY = yf - y \<rparr>;
         f2 = multiply f (magnetStrength sim0 / lengthSquared f);
         t = getX f2 * getY c - getY f2 * getX c;
         t1 = - t;
         change1 = assign change 1 (elem change 1 + t1 / m)
     in magnetLoop bodyToWorld multiply lengthSquared sim0 m xf yf magnets change1)"

text \<open>
  \<^verbatim>\<open>evaluate\<close> gives back what it returns (\<open>None\<close> for \<^verbatim>\<open>null\<close>, \<open>Some\<close> of an
  error object otherwise), the array \<^verbatim>\<open>change\<close> after the call, and the simulation
  after the call (\<^verbatim>\<open>moveObjects\<close> moves the wheel).
\<close>

definition evaluate ::
  "(MagnetWheel \<Rightarrow> Vector \<Rightarrow> Vector) \<Rightarrow> (Vector \<Rightarrow> jsval \<Rightarrow> Vector) \<Rightarrow> (Vector \<Rightarrow> jsval) \<Rightarrow>
   MagnetWheelSim \<Rightarrow> jsval list \<Rightarrow> jsval list \<Rightarrow> jsval \<Rightarrow>
   'e option \<times> jsval list \<times> MagnetWheelSim" where
  "evaluate bodyToWorld multiply lengthSquared sim0 vars change timeStep =
    (let change0 = zeroArray change;
         m = getMass (wheel sim0);
         change1 = assign change0 0 (elem vars 1);
         change2 = assign change1 1 ((- damping sim0) * elem vars 1 / m);
         change3 = assign change2 2 (Num 1);
         sim1 = moveObjects vars sim0;
         xf = 0;
         yf = getRadius (wheel sim1) * Num 0.9;
         magnets = getMagnets (wheel sim1);
         change4 = magnetLoop bodyToWorld multiply lengthSquared sim1 m xf yf magnets change3;
         change5 =
           (if keyLeft sim1 then assign change4 1 (elem change4 1 + keyForce sim1)
            else if keyRight sim1 then assign change4 1 (elem change4 1 + (- keyForce sim1))
            else change4)
     in (None, change5, sim1))"

text \<open>
  \<^verbatim>\<open>modifyObjects\<close> gives back the failure of \<^verbatim>\<open>setValues\<close>, if any, and the
  simulation after the call. The value \<^verbatim>\<open>evaluate\<close> returns and the array
  \<^verbatim>\<open>rate\<close> are dropped, as in the source.
\<close>

definition modifyObjects ::
  "(MagnetWheel \<Rightarrow> Vector \<Rightarrow> Vector) \<Rightarrow> (Vector \<Rightarrow> jsval \<Rightarrow> Vector) \<Rightarrow> (Vector \<Rightarrow> jsval) \<Rightarrow>
   (MagnetWheel \<Rightarrow> jsval) \<Rightarrow> (EnergyInfo \<Rightarrow> jsval) \<Rightarrow>
   MagnetWheelSim \<Rightarrow> error option \<times> MagnetWheelSim" where
  "modifyObjects bodyToWorld multiply lengthSquared getKineticEnergy getTotalEnergy sim0 =
    (let va = varsList sim0;
         vars = getValues va;
         sim1 = moveObjects vars sim0;
         rate = newArray (length vars);
         (r, rate1, sim2) = (evaluate bodyToWorld multiply lengthSquared sim1 vars rate 0
                              :: unit option \<times> jsval list \<times> MagnetWheelSim);
         ei = getEnergyInfo_priv getKineticEnergy vars sim2;
         vars1 = assign vars 3 (getTranslational ei);
         vars2 = assign vars1 4 (getPotential ei);
         vars3 = assign vars2 5 (getTotalEnergy ei)
     in (case setValues vars3 True va of
           Inl e \<Rightarrow> (Some e, sim2)
         | Inr va1 \<Rightarrow> (None, sim2\<lparr>varsList := va1\<rparr>)))"

definition MagnetWheelSim_getMass :: "MagnetWheelSim \<Rightarrow> jsval" where
  "MagnetWheelSim_getMass sim0 = getMass (wheel sim0)"

definition getDamping :: "MagnetWheelSim \<Rightarrow> jsval" where
  "getDamping sim0 = damping sim0"

text \<open>
  Modelled from the spec: \<^verbatim>\<open>AbstractSubject.broadcastParameter\<close> is not part of the
  sources at hand. One notification, carrying the value that the getter registered with the
  named parameter yields when the observers are called.
\<close>

definition MagnetWheelSim_broadcastParameter :: "string \<Rightarrow> MagnetWheelSim \<Rightarrow> MagnetWheelSim" where
  "MagnetWheelSim_broadcastParameter name sim0 =
     sim0\<lparr>simBroadcasts :=
       push \<lparr> paramName = name,
              paramValue = (if name = MASS then MagnetWheelSim_getMass sim0
                            else if name = DAMPING then getDamping sim0 else Undefined) \<rparr>
         (simBroadcasts sim0)\<rparr>"

definition setMass :: "jsval \<Rightarrow> MagnetWheelSim \<Rightarrow> MagnetWheelSim" where
  "setMass value sim0 =
    (let sim1 = sim0\<lparr>wheel := MagnetWheel_setMass value (wheel sim0)\<rparr>;
         sim2 = sim1\<lparr>varsList := incrSequence [3, 4, 5] (varsList sim1)\<rparr>
     in MagnetWheelSim_broadcastParameter MASS sim2)"

definition setDamping :: "jsval \<Rightarrow> MagnetWheelSim \<Rightarrow> MagnetWheelSim" where
  "setDamping value sim0 =
    (let sim1 = sim0\<lparr>damping := value\<rparr>
     in MagnetWheelSim_broadcastParameter DAMPING sim1)"

subsection \<open>A sample wheel\<close>

text \<open>
  Concrete inputs for the parameters \<open>bodyToWorld\<close>, \<open>multiply\<close>, \<open>lengthSquared\<close>,
  \<open>getKineticEnergy\<close> and \<open>getTotalEnergy\<close>, used where a statement is evaluated on an
  example: a wheel centred at the origin that turns a body point by the wheel's angle, a
  vector scaled coordinate by coordinate, the sum of the squares of the coordinates, the
  kinetic energy \<open>m w\<^sup>2 / 2\<close>, and the sum of potential and kinetic energy. The sample
  wheel has radius 1 and one magnet, at \<open>(0.3, 0.5)\<close> in body coordinates; at angle 0 it
  lies away from the fixed magnet point \<open>(0, 0.9)\<close>, and every vector \<^verbatim>\<open>evaluate\<close>
  builds there has finite coordinates.
\<close>

fun js_cos :: "jsval \<Rightarrow> jsval" where
  "js_cos (Num a) = Num (cos a)"
| "js_cos _ = NaN"

fun js_sin :: "jsval \<Rightarrow> jsval" where
  "js_sin (Num a) = Num (sin a)"
| "js_sin _ = NaN"

definition sampleBodyToWorld :: "MagnetWheel \<Rightarrow> Vector \<Rightarrow> Vector" where
  "sampleBodyToWorld w p =
     \<lparr> getX = getX p * js_cos (getAngle w) - getY p * js_sin (getAngle w),
       getY = getX p * js_sin (getAngle w) + getY p * js_cos (getAngle w) \<rparr>"

definition sampleMultiply :: "Vector \<Rightarrow> jsval \<Rightarrow> Vector" where
  "sampleMultiply v factor = \<lparr> getX = factor * getX v, getY = factor * getY v \<rparr>"

definition sampleLengthSquared :: "Vector \<Rightarrow> jsval" where
  "sampleLengthSquared v = getX v * getX v + getY v * getY v"

definition sampleKineticEnergy :: "MagnetWheel \<Rightarrow> jsval" where
  "sampleKineticEnergy w = Num 0.5 * getMass w * (getAngularVelocity w * getAngularVelocity w)"

definition sampleTotalEnergy :: "EnergyInfo \<Rightarrow> jsval" where
  "sampleTotalEnergy ei = getPotential ei + getTranslational ei"

definition sampleWheel :: MagnetWheel where
  "sampleWheel =
     \<lparr> getMass = Num 1, getRadius = Num 1,
       getMagnets = [\<lparr> getX = Num 0.3, getY = Num 0.5 \<rparr>],
       getAngle = Num 0, getAngularVelocity = Num 0 \<rparr>"

definition sampleSim :: MagnetWheelSim where
  "sampleSim = MagnetWheelSim_new sampleWheel"


section \<open>Properties of DiffEqSolverSubject\<close>

lemma find_Some_holds: "find P xs = Some x \<Longrightarrow> x \<in> set xs \<and> P x"
  by (induction xs) (auto split: if_splits)

lemmas sample_defs = sampleSubject_def DiffEqSolverSubject_new_def push_def sampleNameEquals_def
  ODEAdvance_getDiffEqSolver_def ODEAdvance_setDiffEqSolver_def

text \<open>
  C1, as the code has it: \<^verbatim>\<open>setDiffEqSolver\<close> returns no value when the active solver
  or some registered solver answers to the name, and otherwise throws
  \<^verbatim>\<open>Error('unknown solver: ' + value)\<close>. It has no error value to return.
\<close>

theorem setDiffEqSolver_outcome:
  "fst (setDiffEqSolver getName nameEquals value subj) =
     (if nameEquals (ODEAdvance_getDiffEqSolver (advanceStrategy subj)) value
         \<or> (\<exists>s \<in> set (solvers subj). nameEquals s value)
      then Return () else Throw (''unknown solver: '' @ value))"
  by (auto simp: setDiffEqSolver_def Let_def find_None_iff dest: find_Some_holds
      split: option.splits)

theorem setDiffEqSolver_outcome_witness:
  "fst (setDiffEqSolver sampleName sampleNameEquals ''MODIFIED_EULER'' sampleSubject) = Return ()
   \<and> fst (setDiffEqSolver sampleName sampleNameEquals ''rk4'' sampleSubject)
       = Throw ''unknown solver: rk4''"
  using setDiffEqSolver_outcome [of sampleName sampleNameEquals "''MODIFIED_EULER''" sampleSubject]
    setDiffEqSolver_outcome [of sampleName sampleNameEquals "''rk4''" sampleSubject]
  by (simp add: sample_defs)

text \<open>
  C1 as stated fails: with the five solvers registered and Runge-Kutta active, the name
  \<open>''bogus''\<close> makes \<^verbatim>\<open>setDiffEqSolver\<close> throw.
\<close>

theorem setDiffEqSolver_throws_counterexample:
  "setDiffEqSolver sampleName sampleNameEquals ''bogus'' sampleSubject
     = (Throw ''unknown solver: bogus'', sampleSubject)"
  by (simp add: setDiffEqSolver_def sample_defs)

text \<open>
  C2: for the name of a registered solver \<open>s\<close>, \<^verbatim>\<open>setDiffEqSolver\<close> with that name
  returns, and \<^verbatim>\<open>getDiffEqSolver\<close> then yields that name. What is asked of the two
  methods taken as parameters: \<open>s\<close> answers to its own name, and a solver (registered or
  active) that answers to the name of \<open>s\<close> bears that name.
\<close>

theorem select_then_current:
  assumes reg: "s \<in> set (solvers subj)"
    and self: "nameEquals s (getName s False)"
    and sound: "\<And>a. a \<in> insert (ODEAdvance_getDiffEqSolver (advanceStrategy subj)) (set (solvers subj))
                  \<Longrightarrow> nameEquals a (getName s False) \<Longrightarrow> getName a False = getName s False"
  shows "fst (setDiffEqSolver getName nameEquals (getName s False) subj) = Return ()
       \<and> getDiffEqSolver getName (snd (setDiffEqSolver getName nameEquals (getName s False) subj))
           = getName s False"
proof (cases "nameEquals (ODEAdvance_getDiffEqSolver (advanceStrategy subj)) (getName s False)")
  case True
  then show ?thesis
    using sound by (simp add: setDiffEqSolver_def getDiffEqSolver_def)
next
  case False
  from reg self have "find (\<lambda>a. nameEquals a (getName s False)) (solvers subj) \<noteq> None"
    by (auto simp: find_None_iff)
  then obtain t where t: "find (\<lambda>a. nameEquals a (getName s False)) (solvers subj) = Some t"
    by blast
  then have "t \<in> set (solvers subj)" and "nameEquals t (getName s False)"
    by (auto dest: find_Some_holds)
  then have "getName t False = getName s False" by (simp add: sound)
  with False t show ?thesis
    by (simp add: setDiffEqSolver_def getDiffEqSolver_def Let_def broadcastParameter_def
        ODEAdvance_setDiffEqSolver_def ODEAdvance_getDiffEqSolver_def)
qed

theorem select_then_current_witness:
  "fst (setDiffEqSolver sampleName sampleNameEquals ''MODIFIED_EULER'' sampleSubject) = Return ()
   \<and> getDiffEqSolver sampleName
        (snd (setDiffEqSolver sampleName sampleNameEquals ''MODIFIED_EULER'' sampleSubject))
       = ''MODIFIED_EULER''"
proof -
  have reg: "ModifiedEuler () \<in> set (solvers sampleSubject)"
    by (simp add: sample_defs)
  have self: "sampleNameEquals (ModifiedEuler ()) (sampleName (ModifiedEuler ()) False)"
    by (simp add: sampleNameEquals_def)
  have sound: "\<And>a. a \<in> insert (ODEAdvance_getDiffEqSolver (advanceStrategy sampleSubject))
                         (set (solvers sampleSubject))
                  \<Longrightarrow> sampleNameEquals a (sampleName (ModifiedEuler ()) False)
                  \<Longrightarrow> sampleName a False = sampleName (ModifiedEuler ()) False"
    by (simp add: sampleNameEquals_def)
  show ?thesis
    using select_then_current [of "ModifiedEuler ()" sampleSubject sampleNameEquals sampleName,
        OF reg self sound]
    by simp
qed

text \<open>
  C3: when no registered solver answers to the name, \<^verbatim>\<open>setDiffEqSolver\<close> leaves the
  whole subject as it was, the active solver with it, so \<^verbatim>\<open>getDiffEqSolver\<close> yields
  the same name before and after; and the call throws unless the active solver itself
  answers to the name.
\<close>

theorem failed_select_unchanged:
  assumes "\<forall>s \<in> set (solvers subj). \<not> nameEquals s value"
  shows "snd (setDiffEqSolver getName nameEquals value subj) = subj
       \<and> getDiffEqSolver getName (snd (setDiffEqSolver getName nameEquals value subj))
           = getDiffEqSolver getName subj
       \<and> fst (setDiffEqSolver getName nameEquals value subj)
           = (if nameEquals (ODEAdvance_getDiffEqSolver (advanceStrategy subj)) value
              then Return () else Throw (''unknown solver: '' @ value))"
proof -
  from assms have "find (\<lambda>s. nameEquals s value) (solvers subj) = None"
    by (simp add: find_None_iff)
  then show ?thesis
    by (simp add: setDiffEqSolver_def)
qed

theorem failed_select_unchanged_witness:
  "snd (setDiffEqSolver sampleName sampleNameEquals ''bogus'' sampleSubject) = sampleSubject
   \<and> getDiffEqSolver sampleName
        (snd (setDiffEqSolver sampleName sampleNameEquals ''bogus'' sampleSubject))
       = ''RUNGE_KUTTA''
   \<and> fst (setDiffEqSolver sampleName sampleNameEquals ''bogus'' sampleSubject)
       = Throw ''unknown solver: bogus''"
proof -
  have none: "\<forall>s \<in> set (solvers sampleSubject). \<not> sampleNameEquals s ''bogus''"
    by (simp add: sample_defs)
  have cur: "getDiffEqSolver sampleName sampleSubject = ''RUNGE_KUTTA''"
    by (simp add: getDiffEqSolver_def sample_defs)
  have ne: "\<not> sampleNameEquals (ODEAdvance_getDiffEqSolver (advanceStrategy sampleSubject)) ''bogus''"
    by (simp add: sample_defs)
  show ?thesis
    using failed_select_unchanged [of sampleSubject sampleNameEquals "''bogus''" sampleName, OF none]
      cur ne
    by simp
qed

text \<open>
  C4 as stated fails: selecting the solver that is already active returns without an
  error and emits no notification.
\<close>

theorem reselect_silent_counterexample:
  "fst (setDiffEqSolver sampleName sampleNameEquals ''RUNGE_KUTTA'' sampleSubject) = Return ()
   \<and> broadcasts (snd (setDiffEqSolver sampleName sampleNameEquals ''RUNGE_KUTTA'' sampleSubject)) = []"
  by (simp add: setDiffEqSolver_def sample_defs)

text \<open>
  C4, amended: a call that returns and whose name the active solver did not already answer
  to emits exactly one notification, of the parameter \<open>DIFF_EQ_SOLVER\<close>, carrying the name
  of the solver that is active after the call, which answers to the given name; every other
  call (the active solver already answers to the name, or the call throws) emits none.
\<close>

theorem select_notifications:
  "broadcasts (snd (setDiffEqSolver getName nameEquals value subj)) =
     (if fst (setDiffEqSolver getName nameEquals value subj) = Return ()
         \<and> \<not> nameEquals (ODEAdvance_getDiffEqSolver (advanceStrategy subj)) value
      then broadcasts subj @
             [\<lparr> paramName = DIFF_EQ_SOLVER,
                paramValue = getDiffEqSolver getName
                               (snd (setDiffEqSolver getName nameEquals value subj)) \<rparr>]
      else broadcasts subj)
   \<and> (fst (setDiffEqSolver getName nameEquals value subj) = Return ()
         \<and> \<not> nameEquals (ODEAdvance_getDiffEqSolver (advanceStrategy subj)) value
       \<longrightarrow> nameEquals (ODEAdvance_getDiffEqSolver
                          (advanceStrategy (snd (setDiffEqSolver getName nameEquals value subj))))
                       value)"
  by (auto simp: setDiffEqSolver_def Let_def broadcastParameter_def push_def getDiffEqSolver_def
      ODEAdvance_setDiffEqSolver_def ODEAdvance_getDiffEqSolver_def
      dest: find_Some_holds split: option.splits)

theorem select_notifications_witness:
  "broadcasts (snd (setDiffEqSolver sampleName sampleNameEquals ''EULERS_METHOD'' sampleSubject)) =
     [\<lparr> paramName = ''Diff Eq Solver'', paramValue = ''EULERS_METHOD'' \<rparr>]
   \<and> sampleNameEquals (ODEAdvance_getDiffEqSolver
        (advanceStrategy
           (snd (setDiffEqSolver sampleName sampleNameEquals ''EULERS_METHOD'' sampleSubject))))
        ''EULERS_METHOD''"
proof -
  have ok: "fst (setDiffEqSolver sampleName sampleNameEquals ''EULERS_METHOD'' sampleSubject)
              = Return ()"
    by (simp add: setDiffEqSolver_def sample_defs Let_def)
  have ne: "\<not> sampleNameEquals (ODEAdvance_getDiffEqSolver (advanceStrategy sampleSubject))
                ''EULERS_METHOD''"
    by (simp add: sample_defs)
  have b: "broadcasts sampleSubject = []"
    by (simp add: sample_defs)
  have v: "getDiffEqSolver sampleName
             (snd (setDiffEqSolver sampleName sampleNameEquals ''EULERS_METHOD'' sampleSubject))
            = ''EULERS_METHOD''"
    by (simp add: setDiffEqSolver_def getDiffEqSolver_def broadcastParameter_def sample_defs Let_def)
  show ?thesis
    using select_notifications [of sampleName sampleNameEquals "''EULERS_METHOD''" sampleSubject]
      ok ne b v
    by (simp add: DIFF_EQ_SOLVER_def)
qed

text \<open>
  C7: built without an energy system the registry is Euler, Modified Euler, Runge-Kutta;
  built with one it is those three followed by the AdaptiveStepSolver around Modified Euler
  and the one around Runge-Kutta; so it holds an AdaptiveStepSolver exactly when an energy
  system was given.
\<close>

theorem registry_contents:
  "solvers (DiffEqSolverSubject_new getName sim0 None adv opt_name)
     = [EulersMethod sim0, ModifiedEuler sim0, RungeKutta sim0]
   \<and> solvers (DiffEqSolverSubject_new getName sim0 (Some es) adv opt_name)
     = [EulersMethod sim0, ModifiedEuler sim0, RungeKutta sim0,
        AdaptiveStepSolver sim0 es (ModifiedEuler sim0),
        AdaptiveStepSolver sim0 es (RungeKutta sim0)]
   \<and> list_ex isAdaptiveStepSolver (solvers (DiffEqSolverSubject_new getName sim0 e adv opt_name))
     = (e \<noteq> None)"
  by (cases e) (simp_all add: DiffEqSolverSubject_new_def push_def)

theorem registry_contents_witness:
  "solvers sampleSubject
     = [EulersMethod (), ModifiedEuler (), RungeKutta (),
        AdaptiveStepSolver () () (ModifiedEuler ()), AdaptiveStepSolver () () (RungeKutta ())]
   \<and> list_ex isAdaptiveStepSolver (solvers sampleSubject)"
  using registry_contents [of sampleName "()" "\<lparr> odeSolver = RungeKutta () \<rparr>" None "()" "Some ()"]
  by (simp add: sampleSubject_def)

section \<open>Properties of MagnetWheelSim\<close>

lemmas jsval_arith = zero_jsval_def one_jsval_def plus_jsval_def uminus_jsval_def minus_jsval_def
  times_jsval_def divide_jsval_def

lemmas sampleSim_defs = sampleSim_def MagnetWheelSim_new_def sampleWheel_def VarsList_new_def
  setComputed_def setValue_def writeSlot_def MagnetWheel_setMass_def

lemma sampleSim_sequence: "map varSequence (varsList sampleSim) = [0, 1, 0, 0, 0, 0]"
  by (simp add: sampleSim_defs jsval_arith)

subsection \<open>Arrays\<close>

lemma length_assign: "length (assign arr i v) = max (length arr) (Suc i)"
  by (auto simp: assign_def)

lemma nth_assign_neq: "j \<noteq> i \<Longrightarrow> j < length arr \<Longrightarrow> assign arr i v ! j = arr ! j"
  by (auto simp: assign_def nth_append)

lemma prefix_length:
  "length (assign (assign (assign (zeroArray change) 0 a) 1 b) 2 c) = max 3 (length change)"
  by (simp add: length_assign zeroArray_def max_def)

lemma prefix_nth:
  "3 \<le> j \<Longrightarrow> j < length change
   \<Longrightarrow> assign (assign (assign (zeroArray change) 0 a) 1 b) 2 c ! j = 0"
  by (simp add: nth_assign_neq length_assign zeroArray_def)

subsection \<open>evaluate\<close>

lemma magnetLoop_length:
  "2 \<le> length change \<Longrightarrow> length (magnetLoop b2w mul lsq s m xf yf magnets change) = length change"
  by (induction magnets arbitrary: change) (auto simp: Let_def length_assign)

lemma magnetLoop_nth:
  "2 \<le> length change \<Longrightarrow> j \<noteq> 1 \<Longrightarrow> j < length change
   \<Longrightarrow> magnetLoop b2w mul lsq s m xf yf magnets change ! j = change ! j"
proof (induction magnets arbitrary: change)
  case Nil
  then show ?case by simp
next
  case (Cons p ps)
  then show ?case
    by (simp add: Let_def length_assign nth_assign_neq)
qed

lemma evaluate_change:
  "fst (snd (evaluate b2w mul lsq s vars change t)) =
     (let c3 = assign (assign (assign (zeroArray change) 0 (elem vars 1)) 1
                 ((- damping s) * elem vars 1 / getMass (wheel s))) 2 (Num 1);
          s1 = moveObjects vars s;
          c4 = magnetLoop b2w mul lsq s1 (getMass (wheel s)) 0 (getRadius (wheel s1) * Num 0.9)
                 (getMagnets (wheel s1)) c3
      in if keyLeft s1 then assign c4 1 (elem c4 1 + keyForce s1)
         else if keyRight s1 then assign c4 1 (elem c4 1 + (- keyForce s1))
         else c4)"
  by (simp add: evaluate_def Let_def)

lemma evaluate_sim: "snd (snd (evaluate b2w mul lsq s vars change t)) = moveObjects vars s"
  by (simp add: evaluate_def Let_def)







text \<open>
  C6: whatever the state vector, the key flags and the rest of the simulation,
  \<^verbatim>\<open>evaluate\<close> leaves the array \<^verbatim>\<open>change\<close> with its length (at least 3) and with
  0 at every index from 3 on, so only the indices 0, 1 and 2 can hold a non-zero
  derivative; and the slots the constructor marks as computed are the indices 3, 4 and 5.
\<close>

theorem evaluate_computed_slots_zero:
  "length (fst (snd (evaluate bodyToWorld multiply lengthSquared sim0 vars change timeStep
                      :: 'e option \<times> jsval list \<times> MagnetWheelSim)))
     = max 3 (length change)
   \<and> (\<forall>i. 3 \<le> i \<and> i < length change
         \<longrightarrow> elem (fst (snd (evaluate bodyToWorld multiply lengthSquared sim0 vars change timeStep
                                :: 'e option \<times> jsval list \<times> MagnetWheelSim))) i = 0)
   \<and> map varComputed (varsList (MagnetWheelSim_new madeWheel))
       = [False, False, False, True, True, True]"
proof -
  let ?c3 = "assign (assign (assign (zeroArray change) 0 (elem vars 1)) 1
                 ((- damping sim0) * elem vars 1 / getMass (wheel sim0))) 2 (Num 1)"
  let ?s1 = "moveObjects vars sim0"
  let ?c4 = "magnetLoop bodyToWorld multiply lengthSquared ?s1 (getMass (wheel sim0)) 0 (getRadius (wheel ?s1) * Num 0.9)
                 (getMagnets (wheel ?s1)) ?c3"
  let ?c5 = "if keyLeft ?s1 then assign ?c4 1 (elem ?c4 1 + keyForce ?s1)
         else if keyRight ?s1 then assign ?c4 1 (elem ?c4 1 + (- keyForce ?s1))
         else ?c4"
  have l3: "length ?c3 = max 3 (length change)" by (rule prefix_length)
  then have two: "2 \<le> length ?c3" by simp
  have l4: "length ?c4 = max 3 (length change)"
    using magnetLoop_length [OF two] l3 by simp
  have n4: "?c4 ! i = 0" if "3 \<le> i" "i < length change" for i
  proof -
    from that l3 have "i \<noteq> 1" "i < length ?c3" by simp_all
    then have a: "?c4 ! i = ?c3 ! i" using magnetLoop_nth [OF two] by blast
    have b: "?c3 ! i = 0" using that by (rule prefix_nth)
    show ?thesis by (simp only: a b)
  qed
  have r: "fst (snd (evaluate bodyToWorld multiply lengthSquared sim0 vars change timeStep
                      :: 'e option \<times> jsval list \<times> MagnetWheelSim)) = ?c5"
    by (simp add: evaluate_change Let_def)
  have len: "length ?c5 = max 3 (length change)"
    using l4 by (simp add: length_assign)
  have nth: "?c5 ! i = 0" if "3 \<le> i" "i < length change" for i
  proof -
    from that l4 have "i \<noteq> 1" "i < length ?c4" by simp_all
    then show ?thesis using n4 [OF that] by (simp add: nth_assign_neq)
  qed
  have el: "elem ?c5 i = 0" if "3 \<le> i" "i < length change" for i
    using nth [OF that] len that by (simp add: elem_def)
  have comp: "map varComputed (varsList (MagnetWheelSim_new madeWheel))
       = [False, False, False, True, True, True]"
    by (simp add: MagnetWheelSim_new_def VarsList_new_def setComputed_def setValue_def
        writeSlot_def)
  from len el comp show ?thesis unfolding r by blast
qed

theorem evaluate_computed_slots_zero_witness:
  "length (fst (snd (evaluate sampleBodyToWorld sampleMultiply sampleLengthSquared (sampleSim\<lparr>keyLeft := True\<rparr>)
             [Num 0, Num 3, Num 0, Num 0, Num 0, Num 0] (newArray 6) (Num 0)
             :: unit option \<times> jsval list \<times> MagnetWheelSim))) = 6
   \<and> elem (fst (snd (evaluate sampleBodyToWorld sampleMultiply sampleLengthSquared (sampleSim\<lparr>keyLeft := True\<rparr>)
             [Num 0, Num 3, Num 0, Num 0, Num 0, Num 0] (newArray 6) (Num 0)
             :: unit option \<times> jsval list \<times> MagnetWheelSim))) 5 = 0"
proof -
  note t = evaluate_computed_slots_zero [of sampleBodyToWorld sampleMultiply sampleLengthSquared
      "sampleSim\<lparr>keyLeft := True\<rparr>"
      "[Num 0, Num 3, Num 0, Num 0, Num 0, Num 0]" "newArray 6" "Num 0" sampleWheel,
      where ?'e = unit]
  from t [THEN conjunct1] t [THEN conjunct2, THEN conjunct1, rule_format, of 5]
  show ?thesis by (simp add: newArray_def)
qed

subsection \<open>setMass\<close>

lemma incrSequence_345:
  assumes "6 \<le> length va"
  shows "length (incrSequence [3, 4, 5] va) = length va"
    and "i < length va \<Longrightarrow> varSequence (incrSequence [3, 4, 5] va ! i)
           = varSequence (va ! i) + (if i \<in> {3, 4, 5} then 1 else 0)"
    and "i < length va \<Longrightarrow> varValue (incrSequence [3, 4, 5] va ! i) = varValue (va ! i)"
  using assms by (auto simp: incrSequence_def nth_list_update)

text \<open>
  C8: on a VarsList with the six slots (or more), \<^verbatim>\<open>setMass\<close> adds one to the
  change-sequence counter of each of the slots 3, 4 and 5 and leaves every other counter as
  it was, appends exactly one notification, of the parameter \<open>MASS\<close> with the new mass, and
  sets the mass of the wheel.
\<close>

theorem setMass_effect:
  assumes "6 \<le> length (varsList sim0)"
  shows "length (varsList (setMass value sim0)) = length (varsList sim0)
       \<and> (\<forall>i < length (varsList sim0).
             varSequence (varsList (setMass value sim0) ! i)
               = varSequence (varsList sim0 ! i) + (if i \<in> {3, 4, 5} then 1 else 0))
       \<and> simBroadcasts (setMass value sim0)
           = simBroadcasts sim0 @ [\<lparr> paramName = MASS, paramValue = value \<rparr>]
       \<and> MagnetWheelSim_getMass (setMass value sim0) = value"
  using incrSequence_345 [OF assms]
  by (simp add: setMass_def Let_def MagnetWheelSim_broadcastParameter_def push_def
      MagnetWheelSim_getMass_def MagnetWheel_setMass_def)

theorem setMass_effect_witness:
  "map varSequence (varsList (setMass (Num 2) sampleSim)) = [0, 1, 0, 1, 1, 1]
   \<and> simBroadcasts (setMass (Num 2) sampleSim) = [\<lparr> paramName = ''mass'', paramValue = Num 2 \<rparr>]"
proof -
  have six: "6 \<le> length (varsList sampleSim)"
    by (simp add: sampleSim_defs)
  have len: "length (varsList sampleSim) = 6"
    by (simp add: sampleSim_defs)
  have b: "simBroadcasts sampleSim = []"
    by (simp add: sampleSim_defs)
  note t = setMass_effect [OF six, of "Num 2"]
  have l: "length (varsList (setMass (Num 2) sampleSim)) = 6"
    using t len by simp
  have s: "varSequence (varsList (setMass (Num 2) sampleSim) ! i)
               = varSequence (varsList sampleSim ! i) + (if i \<in> {3, 4, 5} then 1 else 0)"
    if "i < 6" for i
    using t len that by simp
  have nths: "varSequence (varsList sampleSim ! 0) = 0" "varSequence (varsList sampleSim ! 1) = 1"
    "varSequence (varsList sampleSim ! 2) = 0" "varSequence (varsList sampleSim ! 3) = 0"
    "varSequence (varsList sampleSim ! 4) = 0" "varSequence (varsList sampleSim ! 5) = 0"
    by (simp_all add: sampleSim_defs jsval_arith)
  have "map varSequence (varsList (setMass (Num 2) sampleSim)) = [0, 1, 0, 1, 1, 1]"
    using l s [of 0] s [of 1] s [of 2] s [of 3] s [of 4] s [of 5] nths
    by (auto simp: list_eq_iff_nth_eq less_Suc_eq numeral_eq_Suc)
  moreover have "simBroadcasts (setMass (Num 2) sampleSim)
                   = [\<lparr> paramName = ''mass'', paramValue = Num 2 \<rparr>]"
    using t b by (simp add: MASS_def)
  ultimately show ?thesis by simp
qed

subsection \<open>modifyObjects\<close>

lemma map2_writeSlot_smooth:
  "length vars = length va \<Longrightarrow> map varSequence (map2 (writeSlot True) vars va) = map varSequence va"
  by (induction vars va rule: list_induct2) (simp_all add: writeSlot_def)

lemma map2_writeSlot_values:
  "length vars = length va \<Longrightarrow> map varValue (map2 (writeSlot b) vars va) = vars"
  by (induction vars va rule: list_induct2) (simp_all add: writeSlot_def)

lemma setValues_Inr_sequence:
  assumes "setValues vars True va = Inr va1"
  shows "map varSequence va1 = map varSequence va"
proof -
  from assms have l: "length vars = length va" and v: "va1 = map2 (writeSlot True) vars va"
    by (auto simp: setValues_def split: if_splits)
  show ?thesis unfolding v using l by (rule map2_writeSlot_smooth)
qed

lemma setValues_Inr_values:
  assumes "setValues vars b va = Inr va1"
  shows "getValues va1 = vars"
proof -
  from assms have l: "length vars = length va" and v: "va1 = map2 (writeSlot b) vars va"
    by (auto simp: setValues_def split: if_splits)
  show ?thesis unfolding v getValues_def using l by (rule map2_writeSlot_values)
qed

lemma setValues_Inl: "setValues vars b va = Inl e \<Longrightarrow> length vars \<noteq> length va"
  by (auto simp: setValues_def split: if_splits)

lemma moveObjects_varsList: "varsList (moveObjects vars s) = varsList s"
  by (simp add: moveObjects_def Let_def)

lemma moveObjects_idem: "moveObjects vars (moveObjects vars s) = moveObjects vars s"
  by (simp add: moveObjects_def Let_def setAngle_def setAngularVelocity_def)

lemma modifyObjects_unfold:
  "modifyObjects b2w mul lsq ke tot s =
    (let va = varsList s; vars = getValues va; s2 = moveObjects vars s;
         ei = getEnergyInfo_priv ke vars s2;
         vars3 = assign (assign (assign vars 3 (getTranslational ei)) 4 (getPotential ei)) 5 (tot ei)
     in (case setValues vars3 True va of
           Inl e \<Rightarrow> (Some e, s2)
         | Inr va1 \<Rightarrow> (None, s2\<lparr>varsList := va1\<rparr>)))"
  by (simp add: modifyObjects_def Let_def split_beta evaluate_sim moveObjects_idem
      split: sum.split)

text \<open>
  C9: \<^verbatim>\<open>modifyObjects\<close> writes the VarsList with \<^verbatim>\<open>continuous = true\<close> and with
  nothing else, so it leaves the change-sequence counter of every slot as it was; and on
  the six slots it puts the kinetic, the potential and the total energy into the slots 3, 4
  and 5 and leaves the values of the slots 0, 1 and 2.
\<close>

theorem modifyObjects_keeps_sequence:
  "map varSequence (varsList (snd (modifyObjects bodyToWorld multiply lengthSquared getKineticEnergy getTotalEnergy sim0)))
     = map varSequence (varsList sim0)
   \<and> (length (varsList sim0) = 6 \<longrightarrow>
        fst (modifyObjects bodyToWorld multiply lengthSquared getKineticEnergy getTotalEnergy sim0) = None
        \<and> getValues (varsList (snd (modifyObjects bodyToWorld multiply lengthSquared getKineticEnergy getTotalEnergy sim0)))
            = (let vars = getValues (varsList sim0);
                   ei = getEnergyInfo_priv getKineticEnergy vars (moveObjects vars sim0)
               in vars[3 := getTranslational ei, 4 := getPotential ei, 5 := getTotalEnergy ei]))"
proof -
  let ?vars = "getValues (varsList sim0)"
  let ?s2 = "moveObjects ?vars sim0"
  let ?ei = "getEnergyInfo_priv getKineticEnergy ?vars ?s2"
  let ?vars3 = "assign (assign (assign ?vars 3 (getTranslational ?ei)) 4 (getPotential ?ei)) 5
                  (getTotalEnergy ?ei)"
  have m: "modifyObjects bodyToWorld multiply lengthSquared getKineticEnergy getTotalEnergy sim0 =
       (case setValues ?vars3 True (varsList sim0) of
           Inl e \<Rightarrow> (Some e, ?s2)
         | Inr va1 \<Rightarrow> (None, ?s2\<lparr>varsList := va1\<rparr>))"
    by (simp add: modifyObjects_unfold Let_def)
  have seq: "map varSequence
               (varsList (snd (modifyObjects bodyToWorld multiply lengthSquared getKineticEnergy getTotalEnergy sim0)))
     = map varSequence (varsList sim0)"
  proof (cases "setValues ?vars3 True (varsList sim0)")
    case (Inl e)
    then show ?thesis unfolding m by (simp add: moveObjects_varsList)
  next
    case (Inr va1)
    then show ?thesis unfolding m by (simp add: setValues_Inr_sequence)
  qed
  have val: "fst (modifyObjects bodyToWorld multiply lengthSquared getKineticEnergy getTotalEnergy sim0) = None
        \<and> getValues (varsList (snd (modifyObjects bodyToWorld multiply lengthSquared getKineticEnergy getTotalEnergy sim0)))
            = ?vars[3 := getTranslational ?ei, 4 := getPotential ?ei, 5 := getTotalEnergy ?ei]"
    if six: "length (varsList sim0) = 6"
  proof -
    from six have lv: "length ?vars = 6" by (simp add: getValues_def)
    then have v3: "?vars3
        = ?vars[3 := getTranslational ?ei, 4 := getPotential ?ei, 5 := getTotalEnergy ?ei]"
      by (simp add: assign_def)
    from lv six have l3: "length ?vars3 = length (varsList sim0)"
      by (simp add: length_assign)
    show ?thesis
    proof (cases "setValues ?vars3 True (varsList sim0)")
      case (Inl e)
      with l3 show ?thesis by (auto dest: setValues_Inl)
    next
      case (Inr va1)
      then have "getValues va1 = ?vars3" by (rule setValues_Inr_values)
      with Inr v3 show ?thesis unfolding m by simp
    qed
  qed
  from seq val show ?thesis by (simp add: Let_def)
qed

theorem modifyObjects_keeps_sequence_witness:
  "map varSequence (varsList (snd (modifyObjects sampleBodyToWorld sampleMultiply sampleLengthSquared sampleKineticEnergy
       sampleTotalEnergy sampleSim))) = [0, 1, 0, 0, 0, 0]
   \<and> getValues (varsList (snd (modifyObjects sampleBodyToWorld sampleMultiply sampleLengthSquared sampleKineticEnergy
       sampleTotalEnergy sampleSim))) = [Num 0, Num 3, Num 0, Num 4.5, Num 0, Num 4.5]"
proof -
  have six: "length (varsList sampleSim) = 6"
    by (simp add: sampleSim_defs)
  have vals: "getValues (varsList sampleSim) = [Num 0, Num 3, Num 0, Num 0, Num 0, Num 0]"
    by (simp add: sampleSim_defs getValues_def jsval_arith)
  have ke: "sampleKineticEnergy
              (wheel (moveObjects [Num 0, Num 3, Num 0, Num 0, Num 0, Num 0] sampleSim))
              = Num 4.5"
    by (simp add: moveObjects_def setAngle_def setAngularVelocity_def
        sampleKineticEnergy_def sampleSim_defs elem_def jsval_arith Let_def)
  note t = modifyObjects_keeps_sequence [of sampleBodyToWorld sampleMultiply sampleLengthSquared
      sampleKineticEnergy
      sampleTotalEnergy sampleSim]
  from t six vals ke sampleSim_sequence show ?thesis
    by (simp add: Let_def getEnergyInfo_priv_def sampleTotalEnergy_def jsval_arith)
qed

subsection \<open>The energy report\<close>

lemma zero_plus_number: "k \<noteq> Undefined \<Longrightarrow> (0::jsval) + k = k"
  by (cases k) (simp_all add: jsval_arith)

lemma setPotentialEnergy_unfold:
  "setPotentialEnergy ke value s =
     (moveObjects (getValues (varsList s)) s)\<lparr>potentialOffset := value - 0\<rparr>"
  by (simp add: setPotentialEnergy_def getEnergyInfo_def getEnergyInfo_priv_def Let_def
      moveObjects_def setAngle_def setAngularVelocity_def)

lemma getEnergyInfo_unfold:
  "fst (getEnergyInfo ke s) =
     \<lparr> getPotential = 0,
       getTranslational = ke (wheel (moveObjects (getValues (varsList s)) s)),
       getRotational = NaN, getWorkDone = NaN, getInitialEnergy = initialEnergy s \<rparr>"
  by (simp add: getEnergyInfo_def getEnergyInfo_priv_def Let_def moveObjects_def)

lemma moveObjects_potentialOffset:
  "moveObjects vars (s\<lparr>potentialOffset := p\<rparr>) = (moveObjects vars s)\<lparr>potentialOffset := p\<rparr>"
  by (simp add: moveObjects_def Let_def)

lemma modifyObjects_potentialOffset:
  "modifyObjects b2w mul lsq ke tot (s\<lparr>potentialOffset := p\<rparr>)
     = (fst (modifyObjects b2w mul lsq ke tot s), (snd (modifyObjects b2w mul lsq ke tot s))\<lparr>potentialOffset := p\<rparr>)"
  by (simp add: modifyObjects_unfold Let_def moveObjects_potentialOffset getEnergyInfo_priv_def
      split: sum.split)

lemma modifyObjects_moved:
  "modifyObjects b2w mul lsq ke tot (moveObjects (getValues (varsList s)) s) = modifyObjects b2w mul lsq ke tot s"
  by (simp add: modifyObjects_unfold Let_def moveObjects_varsList moveObjects_idem
      split: sum.split)

text \<open>
  C10: the EnergyInfo that \<^verbatim>\<open>getEnergyInfo\<close> reports has potential energy 0 and, as
  its translational energy, the kinetic energy of the wheel; its total energy equals that
  kinetic energy; and after \<^verbatim>\<open>setPotentialEnergy\<close> with any value
  \<^verbatim>\<open>getEnergyInfo\<close> reports the same EnergyInfo and \<^verbatim>\<open>modifyObjects\<close> writes the
  same VarsList as without it. What is asked of the two methods taken as parameters: the
  total energy of an EnergyInfo built without rotational energy and work is the sum of its
  potential and its translational energy, and the kinetic energy of a wheel is a number.
\<close>

theorem energy_info_potential_zero:
  assumes tot: "\<And>ei. getRotational ei = NaN \<Longrightarrow> getWorkDone ei = NaN
                  \<Longrightarrow> getTotalEnergy ei = getPotential ei + getTranslational ei"
    and num: "\<And>w. getKineticEnergy w \<noteq> Undefined"
  shows "getPotential (fst (getEnergyInfo getKineticEnergy sim0)) = 0
       \<and> getTotalEnergy (fst (getEnergyInfo getKineticEnergy sim0))
           = getTranslational (fst (getEnergyInfo getKineticEnergy sim0))
       \<and> getTranslational (fst (getEnergyInfo getKineticEnergy sim0))
           = getKineticEnergy (wheel (snd (getEnergyInfo getKineticEnergy sim0)))
       \<and> fst (getEnergyInfo getKineticEnergy (setPotentialEnergy getKineticEnergy value sim0))
           = fst (getEnergyInfo getKineticEnergy sim0)
       \<and> fst (modifyObjects bodyToWorld multiply lengthSquared getKineticEnergy getTotalEnergy
                (setPotentialEnergy getKineticEnergy value sim0))
           = fst (modifyObjects bodyToWorld multiply lengthSquared getKineticEnergy getTotalEnergy sim0)
       \<and> varsList (snd (modifyObjects bodyToWorld multiply lengthSquared getKineticEnergy getTotalEnergy
                (setPotentialEnergy getKineticEnergy value sim0)))
           = varsList (snd (modifyObjects bodyToWorld multiply lengthSquared getKineticEnergy getTotalEnergy sim0))"
proof -
  let ?ei = "fst (getEnergyInfo getKineticEnergy sim0)"
  have p: "getPotential ?ei = 0" by (simp add: getEnergyInfo_unfold)
  have "getTotalEnergy ?ei = getPotential ?ei + getTranslational ?ei"
    by (rule tot) (simp_all add: getEnergyInfo_unfold)
  also have "\<dots> = getTranslational ?ei"
    unfolding p by (rule zero_plus_number) (simp add: getEnergyInfo_unfold num)
  finally have t: "getTotalEnergy ?ei = getTranslational ?ei" .
  have k: "getTranslational ?ei
             = getKineticEnergy (wheel (snd (getEnergyInfo getKineticEnergy sim0)))"
    by (simp add: getEnergyInfo_def getEnergyInfo_priv_def Let_def)
  have e: "fst (getEnergyInfo getKineticEnergy (setPotentialEnergy getKineticEnergy value sim0))
             = ?ei"
    by (simp add: getEnergyInfo_unfold setPotentialEnergy_unfold moveObjects_potentialOffset
        moveObjects_varsList moveObjects_idem) (simp add: moveObjects_def Let_def)
  have m: "modifyObjects bodyToWorld multiply lengthSquared getKineticEnergy getTotalEnergy
                (setPotentialEnergy getKineticEnergy value sim0)
      = (fst (modifyObjects bodyToWorld multiply lengthSquared getKineticEnergy getTotalEnergy sim0),
         (snd (modifyObjects bodyToWorld multiply lengthSquared getKineticEnergy getTotalEnergy sim0))
           \<lparr>potentialOffset := value - 0\<rparr>)"
    by (simp only: setPotentialEnergy_unfold modifyObjects_potentialOffset modifyObjects_moved)
  from p t k e m show ?thesis by simp
qed

theorem energy_info_potential_zero_witness:
  "getPotential (fst (getEnergyInfo sampleKineticEnergy sampleSim)) = Num 0
   \<and> sampleTotalEnergy (fst (getEnergyInfo sampleKineticEnergy sampleSim)) = Num 4.5
   \<and> getTranslational (fst (getEnergyInfo sampleKineticEnergy sampleSim)) = Num 4.5
   \<and> fst (getEnergyInfo sampleKineticEnergy
            (setPotentialEnergy sampleKineticEnergy (Num 7) sampleSim))
       = fst (getEnergyInfo sampleKineticEnergy sampleSim)"
proof -
  have tot: "\<And>ei. getRotational ei = NaN \<Longrightarrow> getWorkDone ei = NaN
                  \<Longrightarrow> sampleTotalEnergy ei = getPotential ei + getTranslational ei"
    by (simp add: sampleTotalEnergy_def)
  have num: "\<And>w. sampleKineticEnergy w \<noteq> Undefined"
  proof -
    fix w
    have a: "js_mul x y \<noteq> Undefined" for x y
      by (cases x; cases y) simp_all
    show "sampleKineticEnergy w \<noteq> Undefined"
      by (simp add: sampleKineticEnergy_def times_jsval_def a)
  qed
  have ke: "getTranslational (fst (getEnergyInfo sampleKineticEnergy sampleSim)) = Num 4.5"
    by (simp add: getEnergyInfo_unfold moveObjects_def setAngle_def setAngularVelocity_def
        sampleKineticEnergy_def sampleSim_defs getValues_def elem_def jsval_arith Let_def)
  show ?thesis
    using energy_info_potential_zero [of sampleTotalEnergy sampleKineticEnergy sampleSim "Num 7"
        sampleBodyToWorld sampleMultiply sampleLengthSquared, OF tot num] ke
    by (simp add: zero_jsval_def)
qed

end
